theory Spec2Isabelle
  imports Main "HOL-Library.Char_ord" "HOL-Library.List_Lexorder"
begin

section \<open>JavaScript values\<close>

text \<open>
  The server handles parsed JSON and plain JavaScript objects. A value is one of the
  JavaScript primitives, an array, or an object given by its own enumerable properties in
  the order \<^verbatim>\<open>Object.entries\<close> lists them. Properties inherited from
  \<^verbatim>\<open>Object.prototype\<close> and the special key \<^verbatim>\<open>__proto__\<close> are not
  modelled. Strings are lists of 8-bit characters.

  Numbers stay abstract: the type \<open>'n\<close> stands for JavaScript's doubles, and the four
  builtins the code applies to them are taken as a parameter \<open>ops\<close>:
  \<^verbatim>\<open>Number.isFinite\<close>, \<^verbatim>\<open>String(n)\<close>, truthiness (neither zero nor NaN) and the
  conversion of an array length to a number.
\<close>

datatype 'n json =
    JUndefined
  | JNull
  | JBool bool
  | JNum 'n
  | JStr string
  | JArr "'n json list"
  | JObj "(string \<times> 'n json) list"

record 'n numops =
  numIsFinite :: "'n \<Rightarrow> bool"
  numToString :: "'n \<Rightarrow> string"
  numTruthy :: "'n \<Rightarrow> bool"
  numOfNat :: "nat \<Rightarrow> 'n"

text \<open>Decimal rendering of a natural number (array indices as property keys).\<close>

definition digitChar :: "nat \<Rightarrow> char" where
  "digitChar d = char_of (of_char CHR ''0'' + d)"

fun decimal :: "nat \<Rightarrow> string" where
  "decimal n = (if n < 10 then [digitChar n] else decimal (n div 10) @ [digitChar (n mod 10)])"

declare decimal.simps [simp del]

text \<open>A concrete number interface over the integers, used to run the model.\<close>

definition intToString :: "int \<Rightarrow> string" where
  "intToString i = (if i < 0 then CHR ''-'' # decimal (nat (- i)) else decimal (nat i))"

definition intOps :: "int numops" where
  "intOps = \<lparr> numIsFinite = (\<lambda>_. True), numToString = intToString,
              numTruthy = (\<lambda>i. i \<noteq> 0), numOfNat = int \<rparr>"

subsection \<open>Strings\<close>

text \<open>
  \<^verbatim>\<open>String.prototype.trim\<close> removes white space and line terminators from both ends;
  in the 8-bit range these are TAB, LF, VT, FF, CR, SP and NBSP.
\<close>

definition isWhiteSpace :: "char \<Rightarrow> bool" where
  "isWhiteSpace c = ((of_char c :: nat) \<in> {9, 10, 11, 12, 13, 32, 160})"

definition trim :: "string \<Rightarrow> string" where
  "trim s = rev (dropWhile isWhiteSpace (rev (dropWhile isWhiteSpace s)))"

text \<open>
  \<^verbatim>\<open>String.prototype.toLowerCase\<close> on 8-bit characters: A-Z and the Latin-1 capitals
  (all of 0xC0-0xDE but the multiplication sign 0xD7) move up by 32.
\<close>

definition lowerChar :: "char \<Rightarrow> char" where
  "lowerChar c =
     (let n = (of_char c :: nat)
      in if (65 \<le> n \<and> n \<le> 90) \<or> (192 \<le> n \<and> n \<le> 222 \<and> n \<noteq> 215)
         then char_of (n + 32) else c)"

definition toLowerCase :: "string \<Rightarrow> string" where
  "toLowerCase s = map lowerChar s"

text \<open>\<^verbatim>\<open>a || b\<close> on optional strings: the first one that is present and non-empty.\<close>

definition strTruthy :: "string option \<Rightarrow> bool" where
  "strTruthy s = (case s of None \<Rightarrow> False | Some t \<Rightarrow> t \<noteq> [])"

definition orElse :: "string option \<Rightarrow> string option \<Rightarrow> string option" where
  "orElse a b = (if strTruthy a then a else b)"

definition optStr :: "string option \<Rightarrow> 'n json" where
  "optStr s = (case s of None \<Rightarrow> JUndefined | Some t \<Rightarrow> JStr t)"

subsection \<open>Objects\<close>

definition keys :: "(string \<times> 'v) list \<Rightarrow> string list" where
  "keys es = map fst es"

text \<open>\<^verbatim>\<open>obj[k]\<close>: the own property, or \<^verbatim>\<open>undefined\<close>.\<close>

definition obj_get :: "(string \<times> 'n json) list \<Rightarrow> string \<Rightarrow> 'n json" where
  "obj_get es k = (case map_of es k of None \<Rightarrow> JUndefined | Some v \<Rightarrow> v)"

text \<open>\<^verbatim>\<open>obj[k] = v\<close>: an existing key keeps its place, a new key goes last.\<close>

fun obj_set :: "(string \<times> 'v) list \<Rightarrow> string \<Rightarrow> 'v \<Rightarrow> (string \<times> 'v) list" where
  "obj_set [] k v = [(k, v)]"
| "obj_set ((k', v') # es) k v = (if k' = k then (k, v) # es else (k', v') # obj_set es k v)"

text \<open>\<^verbatim>\<open>delete obj[k]\<close>.\<close>

definition obj_delete :: "(string \<times> 'v) list \<Rightarrow> string \<Rightarrow> (string \<times> 'v) list" where
  "obj_delete es k = filter (\<lambda>e. fst e \<noteq> k) es"

text \<open>\<^verbatim>\<open>Object.assign(target, source)\<close> and the spread \<^verbatim>\<open>{...a, ...b}\<close>.\<close>

definition obj_assign :: "(string \<times> 'v) list \<Rightarrow> (string \<times> 'v) list \<Rightarrow> (string \<times> 'v) list" where
  "obj_assign target source = fold (\<lambda>(k, v) acc. obj_set acc k v) source target"



text \<open>\<^verbatim>\<open>typeof v === "object"\<close>.\<close>

fun typeofObject :: "'n json \<Rightarrow> bool" where
  "typeofObject JNull = True"
| "typeofObject (JArr xs) = True"
| "typeofObject (JObj es) = True"
| "typeofObject v = False"

fun truthy :: "'n numops \<Rightarrow> 'n json \<Rightarrow> bool" where
  "truthy ops JUndefined = False"
| "truthy ops JNull = False"
| "truthy ops (JBool b) = b"
| "truthy ops (JNum n) = numTruthy ops n"
| "truthy ops (JStr s) = (s \<noteq> [])"
| "truthy ops (JArr xs) = True"
| "truthy ops (JObj es) = True"

section \<open>Schema loader (schema-loader.js)\<close>

subsection \<open>Metadata\<close>

record targetObjectMetadata =
  t_nameSingular :: "string option"
  t_namePlural :: "string option"
  t_labelSingular :: "string option"
  t_labelPlural :: "string option"

record relation =
  r_type :: "string option"
  r_targetObjectMetadata :: "targetObjectMetadata option"

text \<open>An entry of \<^verbatim>\<open>field.options\<close>: a string, or an object read through \<^verbatim>\<open>.value\<close>.\<close>

datatype 'n fieldOption = OptString string | OptObject "(string \<times> 'n json) list"

record 'n field =
  f_name :: string
  f_type :: string
  f_isActive :: bool
  f_isSystem :: bool
  f_isNullable :: "bool option"
  f_label :: "string option"
  f_description :: "string option"
  f_options :: "'n fieldOption list option"
  f_defaultValue :: "'n json"
  f_relation :: "relation option"

subsection \<open>Relation aliases\<close>

text \<open>The regular expressions \<^verbatim>\<open>/(Id)$/i\<close> and \<^verbatim>\<open>/(Ids)$/i\<close>.\<close>

definition endsWithId :: "string \<Rightarrow> bool" where
  "endsWithId s =
     (case rev s of
        d # i # _ \<Rightarrow> (i = CHR ''I'' \<or> i = CHR ''i'') \<and> (d = CHR ''D'' \<or> d = CHR ''d'')
      | _ \<Rightarrow> False)"

definition endsWithIds :: "string \<Rightarrow> bool" where
  "endsWithIds s =
     (case rev s of
        z # d # i # _ \<Rightarrow> (i = CHR ''I'' \<or> i = CHR ''i'') \<and> (d = CHR ''D'' \<or> d = CHR ''d'')
                         \<and> (z = CHR ''S'' \<or> z = CHR ''s'')
      | _ \<Rightarrow> False)"

definition endsWith :: "string \<Rightarrow> string \<Rightarrow> bool" where
  "endsWith s suffix = (length suffix \<le> length s \<and> drop (length s - length suffix) s = suffix)"

definition getRelationAlias :: "'n field \<Rightarrow> string option" where
  "getRelationAlias fld =
     (case f_relation fld of
        None \<Rightarrow> None
      | Some rel \<Rightarrow>
          (if \<not> strTruthy (r_type rel) then None
           else
             let type = the (r_type rel); baseName = f_name fld
             in if type = ''MANY_TO_ONE'' \<or> type = ''ONE_TO_ONE''
                then (if endsWithId baseName then Some baseName else Some (baseName @ ''Id''))
                else if type = ''ONE_TO_MANY'' \<or> type = ''MANY_TO_MANY''
                then (if endsWithIds baseName then Some baseName
                      else if endsWith baseName ''s'' then Some (baseName @ ''Ids'')
                      else Some (baseName @ ''Ids''))
                else None))"

subsection \<open>Default values\<close>

definition AUTO_DEFAULT_TOKENS :: "string list" where
  "AUTO_DEFAULT_TOKENS = [''now'', ''uuid'', ''incrementalposition'', ''currentuser'', ''autoincrement'']"

definition EMPTY_STRING_TOKENS :: "string list" where
  "EMPTY_STRING_TOKENS = [[CHR 0x27, CHR 0x27], [CHR 0x22, CHR 0x22]]"

definition isQuote :: "char \<Rightarrow> bool" where
  "isQuote c = (c = CHR 0x27 \<or> c = CHR 0x22)"

text \<open>\<^verbatim>\<open>s.replace(/^['"]|['"]$/g, '')\<close>: one quote off the front, then one off the end.\<close>

definition stripQuotes :: "string \<Rightarrow> string" where
  "stripQuotes s =
     (let s1 = (case s of c # r \<Rightarrow> if isQuote c then r else s | [] \<Rightarrow> [])
      in case rev s1 of c # r \<Rightarrow> if isQuote c then rev r else s1 | [] \<Rightarrow> s1)"

fun normalizeDefaultValue :: "'n json \<Rightarrow> 'n json"
  and normalizeDefaultItems :: "'n json list \<Rightarrow> 'n json list"
  and normalizeDefaultEntries :: "(string \<times> 'n json) list \<Rightarrow> (string \<times> 'n json) list"
where
  "normalizeDefaultValue JNull = JUndefined"
| "normalizeDefaultValue JUndefined = JUndefined"
| "normalizeDefaultValue (JStr v) =
     (let trimmed = trim v
      in if trimmed \<in> set EMPTY_STRING_TOKENS then JStr []
         else let stripped = stripQuotes trimmed
              in if toLowerCase stripped \<in> set AUTO_DEFAULT_TOKENS then JUndefined
                 else JStr stripped)"
| "normalizeDefaultValue (JArr xs) =
     (let normalizedArray = normalizeDefaultItems xs
      in if normalizedArray \<noteq> [] then JArr normalizedArray else JUndefined)"
| "normalizeDefaultValue (JObj es) =
     (let normalizedObject = normalizeDefaultEntries es
      in if normalizedObject \<noteq> [] then JObj normalizedObject else JUndefined)"
| "normalizeDefaultValue (JBool b) = JBool b"
| "normalizeDefaultValue (JNum n) = JNum n"
| "normalizeDefaultItems [] = []"
| "normalizeDefaultItems (x # xs) =
     (let item = normalizeDefaultValue x
      in if item \<noteq> JUndefined then item # normalizeDefaultItems xs else normalizeDefaultItems xs)"
| "normalizeDefaultEntries [] = []"
| "normalizeDefaultEntries ((key, val) # es) =
     (let normalizedVal = normalizeDefaultValue val
      in if normalizedVal \<noteq> JUndefined then (key, normalizedVal) # normalizeDefaultEntries es
         else normalizeDefaultEntries es)"

subsection \<open>Field types\<close>

definition typeMap :: "(string \<times> string) list" where
  "typeMap =
     [(''TEXT'', ''string''), (''UUID'', ''string''), (''EMAIL'', ''string''),
      (''PHONE'', ''string''), (''LINK'', ''string''), (''LINKS'', ''object''),
      (''NUMBER'', ''number''), (''NUMERIC'', ''number''), (''BOOLEAN'', ''boolean''),
      (''DATE_TIME'', ''string''), (''DATE'', ''string''), (''CURRENCY'', ''object''),
      (''SELECT'', ''string''), (''MULTI_SELECT'', ''array''), (''RATING'', ''string''),
      (''ADDRESS'', ''object''), (''FULL_NAME'', ''object''), (''ACTOR'', ''object''),
      (''EMAILS'', ''object''), (''PHONES'', ''object''), (''ARRAY'', ''array''),
      (''RAW_JSON'', ''object''), (''RICH_TEXT'', ''string''), (''POSITION'', ''number''),
      (''RELATION'', ''string'')]"

definition mapFieldType :: "string \<Rightarrow> string" where
  "mapFieldType fieldType = (case map_of typeMap fieldType of Some t \<Rightarrow> t | None \<Rightarrow> ''string'')"

text \<open>A sub-property \<^verbatim>\<open>{ type, description }\<close>.\<close>

definition described :: "string \<Rightarrow> string \<Rightarrow> 'n json" where
  "described ty d = JObj [(''type'', JStr ty), (''description'', JStr d)]"

definition targetOf :: "relation \<Rightarrow> (targetObjectMetadata \<Rightarrow> string option) \<Rightarrow> string option" where
  "targetOf rel sel = (case r_targetObjectMetadata rel of None \<Rightarrow> None | Some t \<Rightarrow> sel t)"

text \<open>The \<^verbatim>\<open>switch (field.type)\<close> of \<^verbatim>\<open>buildFieldProperty\<close>.\<close>

definition fieldTypeShape :: "'n field \<Rightarrow> (string \<times> 'n json) list \<Rightarrow> (string \<times> 'n json) list" where
  "fieldTypeShape fld property =
     (if f_type fld = ''FULL_NAME'' then
        obj_set (obj_set (obj_set property ''type'' (JStr ''object''))
          ''properties'' (JObj
            [(''firstName'', described ''string'' ''First name''),
             (''lastName'', described ''string'' ''Last name''),
             (''middleName'', described ''string'' ''Middle name''),
             (''prefix'', described ''string'' ''Name prefix (e.g., Dr.)''),
             (''suffix'', described ''string'' ''Name suffix (e.g., Jr.)'')]))
          ''additionalProperties'' (JBool False)
      else if f_type fld = ''ADDRESS'' then
        obj_set (obj_set (obj_set property ''type'' (JStr ''object''))
          ''properties'' (JObj
            [(''addressLine1'', described ''string'' ''Primary address line''),
             (''addressLine2'', described ''string'' ''Secondary address line''),
             (''city'', described ''string'' ''City or locality''),
             (''state'', described ''string'' ''State or region''),
             (''postalCode'', described ''string'' ''Postal or ZIP code''),
             (''country'', described ''string'' ''Country code or name'')]))
          ''additionalProperties'' (JBool False)
      else if f_type fld = ''CURRENCY'' then
        obj_set (obj_set (obj_set (obj_set property ''type'' (JStr ''object''))
          ''properties'' (JObj
            [(''amount'', described ''number'' ''Monetary amount''),
             (''currency'', described ''string'' ''Three-letter currency code (ISO 4217)'')]))
          ''required'' (JArr [JStr ''amount'', JStr ''currency'']))
          ''additionalProperties'' (JBool False)
      else if f_type fld = ''RELATION'' then
        (case f_relation fld of
           None \<Rightarrow> property
         | Some rel \<Rightarrow>
             let relationType = r_type rel;
                 targetLabel = the (orElse (orElse (targetOf rel t_labelSingular)
                                 (targetOf rel t_nameSingular)) (Some ''record''));
                 property1 =
                   (if relationType = Some ''MANY_TO_ONE'' \<or> relationType = Some ''ONE_TO_ONE''
                    then obj_set (obj_set property ''type'' (JStr ''string''))
                           ''description'' (JStr (''ID of the related '' @ targetLabel))
                    else if relationType = Some ''ONE_TO_MANY'' \<or> relationType = Some ''MANY_TO_MANY''
                    then obj_set (obj_set property ''type'' (JStr ''array''))
                           ''items'' (described ''string''
                              (''IDs of related '' @ the (orElse (targetOf rel t_labelPlural)
                                                         (Some (targetLabel @ ''s'')))))
                    else property)
             in obj_set property1 ''relation'' (JObj
                  [(''type'', optStr relationType),
                   (''target'', optStr (targetOf rel t_namePlural)),
                   (''targetLabel'',
                      optStr (orElse (targetOf rel t_labelPlural) (targetOf rel t_namePlural)))]))
      else if f_type fld = ''EMAILS'' \<or> f_type fld = ''PHONES'' then
        obj_set (obj_set property ''type'' (JStr ''array''))
          ''items'' (JObj
            [(''type'', JStr ''object''),
             (''properties'', JObj
                [(''value'', described ''string'' ''Contact value''),
                 (''type'', described ''string'' ''Type label or category''),
                 (''primary'', described ''boolean'' ''Whether this is the primary contact value'')]),
             (''additionalProperties'', JBool True)])
      else if f_type fld = ''LINKS'' then
        obj_set (obj_set (obj_set property ''type'' (JStr ''object''))
          ''properties'' (JObj
            [(''primary'', described ''string'' ''Primary link''),
             (''secondary'', described ''string'' ''Secondary link''),
             (''additional'', JObj
                [(''type'', JStr ''array''),
                 (''items'', JObj [(''type'', JStr ''string'')]),
                 (''description'', JStr ''Additional URLs'')])]))
          ''additionalProperties'' (JBool True)
      else if f_type fld = ''ACTOR'' then
        obj_set (obj_set (obj_set property ''type'' (JStr ''object''))
          ''properties'' (JObj
            [(''id'', described ''string'' ''User or system identifier''),
             (''type'', described ''string'' ''Actor type (user, system, integration, etc.)'')]))
          ''additionalProperties'' (JBool True)
      else if f_type fld = ''MULTI_SELECT'' \<or> f_type fld = ''ARRAY'' then
        obj_set (obj_set property ''type'' (JStr ''array''))
          ''items'' (JObj [(''type'', JStr ''string'')])
      else if f_type fld = ''RAW_JSON'' then
        obj_set (obj_set property ''type'' (JStr ''object''))
          ''additionalProperties'' (JBool True)
      else property)"

fun optionValue :: "'n fieldOption \<Rightarrow> 'n json" where
  "optionValue (OptString opt) = JStr opt"
| "optionValue (OptObject opt) = obj_get opt ''value''"

definition fieldEnum :: "'n field \<Rightarrow> (string \<times> 'n json) list \<Rightarrow> (string \<times> 'n json) list" where
  "fieldEnum fld property =
     (case f_options fld of
        None \<Rightarrow> property
      | Some opts \<Rightarrow>
          let values = JArr (map optionValue opts)
          in (case (obj_get property ''type'', obj_get property ''items'') of
                (JStr ty, JObj items) \<Rightarrow>
                  if ty = ''array''
                  then obj_set property ''items'' (JObj (obj_set items ''enum'' values))
                  else obj_set property ''enum'' values
              | _ \<Rightarrow> obj_set property ''enum'' values))"

definition buildFieldProperty :: "'n field \<Rightarrow> (string \<times> 'n json) list" where
  "buildFieldProperty fld =
     (let baseType = mapFieldType (f_type fld);
          property = [(''type'', JStr baseType),
                      (''description'',
                         if strTruthy (f_label fld) then optStr (f_label fld)
                         else if strTruthy (f_description fld) then optStr (f_description fld)
                         else JUndefined)];
          property = fieldTypeShape fld property;
          property = fieldEnum fld property;
          normalizedDefault = normalizeDefaultValue (f_defaultValue fld)
      in if normalizedDefault \<noteq> JUndefined
         then obj_set property ''default'' normalizedDefault
         else property)"

subsection \<open>Objects and their compiled schema\<close>

record 'n objectMetadata =
  o_nameSingular :: string
  o_namePlural :: string
  o_labelSingular :: "string option"
  o_labelPlural :: "string option"
  o_description :: "string option"
  o_isActive :: bool
  o_isSystem :: bool
  o_fields :: "'n field list"

record relationMeta =
  rm_name :: string
  rm_alias :: "string option"
  rm_relationType :: "string option"
  rm_targetNameSingular :: "string option"
  rm_targetNamePlural :: "string option"
  rm_targetLabelSingular :: "string option"
  rm_targetLabelPlural :: "string option"

record 'n schema =
  s_nameSingular :: string
  s_namePlural :: string
  s_labelSingular :: "string option"
  s_labelPlural :: "string option"
  s_description :: "string option"
  s_properties :: "(string \<times> 'n json) list"
  s_required :: "string list"
  s_fieldMetadata :: "'n field list"
  s_relationMetadata :: "relationMeta list"

text \<open>
  \<open>metadata\<close> is \<^verbatim>\<open>this.metadata\<close>: \<open>None\<close> before a successful load, else the list
  \<^verbatim>\<open>metadata.data.objects\<close>.
\<close>

definition getObjectByName :: "'n objectMetadata list option \<Rightarrow> string \<Rightarrow> 'n objectMetadata option" where
  "getObjectByName metadata name =
     (case metadata of
        None \<Rightarrow> None
      | Some objects \<Rightarrow>
          if name = [] then None
          else let normalized = toLowerCase name
               in find (\<lambda>obj. o_isActive obj \<and>
                         (toLowerCase (o_namePlural obj) = normalized \<or>
                          toLowerCase (o_nameSingular obj) = normalized)) objects)"

definition getObjectFields :: "'n objectMetadata list option \<Rightarrow> string \<Rightarrow> 'n field list" where
  "getObjectFields metadata name =
     (case getObjectByName metadata name of
        None \<Rightarrow> []
      | Some object \<Rightarrow>
          filter (\<lambda>fld.
            if \<not> f_isActive fld \<or> f_isSystem fld then False
            else if f_type fld = ''RELATION'' then
              (let relationType = (case f_relation fld of None \<Rightarrow> None | Some rel \<Rightarrow> r_type rel)
               in relationType = Some ''MANY_TO_ONE'' \<or> relationType = Some ''ONE_TO_ONE'')
            else True) (o_fields object))"

text \<open>
  The body of the \<^verbatim>\<open>fields.forEach\<close> of \<^verbatim>\<open>generateToolSchema\<close>, on the triple
  (properties, required, relationMetadata). Every property definition is an object, so
  \<^verbatim>\<open>!properties[alias]\<close> holds exactly when the key is absent.
\<close>

definition addField ::
  "'n field \<Rightarrow> (string \<times> 'n json) list \<times> string list \<times> relationMeta list
     \<Rightarrow> (string \<times> 'n json) list \<times> string list \<times> relationMeta list" where
  "addField fld acc =
     (case acc of (properties, required, relationMetadata) \<Rightarrow>
        let prop = buildFieldProperty fld;
            properties = obj_set properties (f_name fld) (JObj prop);
            required =
              (if f_isNullable fld = Some False
                  \<and> (f_defaultValue fld = JNull \<or> f_defaultValue fld = JUndefined)
               then required @ [f_name fld] else required)
        in (case (if f_type fld = ''RELATION'' then f_relation fld else None) of
              None \<Rightarrow> (properties, required, relationMetadata)
            | Some rel \<Rightarrow>
                let alias = getRelationAlias fld;
                    relationType = r_type rel;
                    relationMetadata = relationMetadata @
                      [\<lparr> rm_name = f_name fld, rm_alias = alias, rm_relationType = relationType,
                         rm_targetNameSingular = targetOf rel t_nameSingular,
                         rm_targetNamePlural = targetOf rel t_namePlural,
                         rm_targetLabelSingular = targetOf rel t_labelSingular,
                         rm_targetLabelPlural = targetOf rel t_labelPlural \<rparr>]
                in if strTruthy alias \<and> the alias \<notin> set (keys properties)
                   then
                     let aliasProperty =
                       (if relationType = Some ''MANY_TO_ONE'' \<or> relationType = Some ''ONE_TO_ONE''
                        then JObj [(''type'', JStr ''string''),
                                   (''description'', JStr (''ID of the related '' @
                                      the (orElse (orElse (targetOf rel t_labelSingular)
                                             (targetOf rel t_nameSingular)) (Some (f_name fld)))))]
                        else JObj [(''type'', JStr ''array''),
                                   (''items'', JObj [(''type'', JStr ''string'')]),
                                   (''description'', JStr (''IDs of related '' @
                                      the (orElse (orElse (targetOf rel t_labelPlural)
                                             (targetOf rel t_namePlural)) (Some (f_name fld)))))])
                     in (obj_set properties (the alias) aliasProperty, required, relationMetadata)
                   else (properties, required, relationMetadata)))"

definition generateToolSchema :: "'n objectMetadata list option \<Rightarrow> string \<Rightarrow> 'n schema option" where
  "generateToolSchema metadata namePluralOrSingular =
     (case getObjectByName metadata namePluralOrSingular of
        None \<Rightarrow> None
      | Some object \<Rightarrow>
          let fields = getObjectFields metadata (o_namePlural object)
          in (case fold addField fields ([], [], []) of
                (properties, required, relationMetadata) \<Rightarrow>
                  Some \<lparr> s_nameSingular = o_nameSingular object,
                         s_namePlural = o_namePlural object,
                         s_labelSingular = o_labelSingular object,
                         s_labelPlural = o_labelPlural object,
                         s_description = o_description object,
                         s_properties = properties,
                         s_required = required,
                         s_fieldMetadata = fields,
                         s_relationMetadata = relationMetadata \<rparr>))"

text \<open>The names of the sub-properties a compiled property declares.\<close>

definition subPropertyNames :: "(string \<times> 'n json) list \<Rightarrow> string list" where
  "subPropertyNames property =
     (case obj_get property ''properties'' of JObj ps \<Rightarrow> keys ps | _ \<Rightarrow> [])"

section \<open>Server (index.js)\<close>

subsection \<open>Payload sanitizer\<close>

text \<open>
  \<^verbatim>\<open>getRelationInfo\<close> fills two \<^verbatim>\<open>Map\<close>s in one pass over the relation
  descriptors; a later descriptor overwrites an earlier one under the same key.
\<close>

definition getRelationInfo ::
  "'n schema \<Rightarrow> (string \<rightharpoonup> relationMeta) \<times> (string \<rightharpoonup> relationMeta)" where
  "getRelationInfo schema =
     fold (\<lambda>relation (byName, byAlias).
             (byName(rm_name relation \<mapsto> relation),
              if strTruthy (rm_alias relation)
              then byAlias(the (rm_alias relation) \<mapsto> relation) else byAlias))
          (s_relationMetadata schema) (Map.empty, Map.empty)"

definition getLinksFieldNames :: "'n schema \<Rightarrow> string list" where
  "getLinksFieldNames schema =
     map f_name (filter (\<lambda>fld. f_type fld = ''LINKS'') (s_fieldMetadata schema))"

text \<open>
  An object with one of the three link keys is returned at once; an object without them
  falls through to the last \<^verbatim>\<open>return value\<close>.
\<close>

fun normalizeLinksValue :: "'n json \<Rightarrow> 'n json" where
  "normalizeLinksValue JNull = JNull"
| "normalizeLinksValue JUndefined = JUndefined"
| "normalizeLinksValue (JObj es) =
     (if ''primaryLinkUrl'' \<in> set (keys es) \<or> ''primaryLinkLabel'' \<in> set (keys es)
         \<or> ''secondaryLinks'' \<in> set (keys es)
      then JObj es else JObj es)"
| "normalizeLinksValue (JStr v) =
     (let trimmed = trim v
      in if length trimmed = 0
         then JObj [(''primaryLinkUrl'', JStr []), (''primaryLinkLabel'', JStr []),
                    (''secondaryLinks'', JNull)]
         else JObj [(''primaryLinkUrl'', JStr trimmed), (''primaryLinkLabel'', JStr []),
                    (''secondaryLinks'', JNull)])"
| "normalizeLinksValue v = v"

definition getRelationCardinality :: "string option \<Rightarrow> string option" where
  "getRelationCardinality relationType =
     (if relationType = Some ''MANY_TO_ONE'' \<or> relationType = Some ''ONE_TO_ONE''
      then Some ''single''
      else if relationType = Some ''ONE_TO_MANY'' \<or> relationType = Some ''MANY_TO_MANY''
      then Some ''multiple''
      else None)"

text \<open>The result is \<^verbatim>\<open>null\<close>, a string, or \<^verbatim>\<open>undefined\<close>.\<close>

fun extractSingleRelationId :: "'n numops \<Rightarrow> 'n json \<Rightarrow> 'n json" where
  "extractSingleRelationId ops JNull = JNull"
| "extractSingleRelationId ops (JStr v) =
     (let trimmed = trim v in if length trimmed \<noteq> 0 then JStr trimmed else JUndefined)"
| "extractSingleRelationId ops (JNum n) =
     (if numIsFinite ops n then JStr (numToString ops n) else JUndefined)"
| "extractSingleRelationId ops (JObj es) =
     (case obj_get es ''id'' of
        JStr i \<Rightarrow>
          if length (trim i) \<noteq> 0 then JStr (trim i)
          else (case obj_get es ''value'' of
                  JStr w \<Rightarrow> if length (trim w) \<noteq> 0 then JStr (trim w) else JUndefined
                | _ \<Rightarrow> JUndefined)
      | _ \<Rightarrow>
          (case obj_get es ''value'' of
             JStr w \<Rightarrow> if length (trim w) \<noteq> 0 then JStr (trim w) else JUndefined
           | _ \<Rightarrow> JUndefined))"
| "extractSingleRelationId ops v = JUndefined"

text \<open>\<^verbatim>\<open>Array.from(new Set(ids))\<close>: the first occurrence of every element, in order.\<close>

fun uniqueInOrder :: "string list \<Rightarrow> string list \<Rightarrow> string list" where
  "uniqueInOrder seen [] = []"
| "uniqueInOrder seen (x # xs) =
     (if x \<in> set seen then uniqueInOrder seen xs else x # uniqueInOrder (x # seen) xs)"

fun isArray :: "'n json \<Rightarrow> bool" where
  "isArray (JArr xs) = True"
| "isArray v = False"

fun elements :: "'n json \<Rightarrow> 'n json list" where
  "elements (JArr xs) = xs"
| "elements v = []"

definition explicitClear :: "'n json \<Rightarrow> bool" where
  "explicitClear v =
     (v = JNull \<or> v = JArr [] \<or> (case v of JObj es \<Rightarrow> obj_get es ''ids'' = JArr [] | _ \<Rightarrow> False))"

text \<open>The list \<^verbatim>\<open>candidates\<close> that \<^verbatim>\<open>extractMultipleRelationIds\<close> walks.\<close>

fun candidates :: "'n json \<Rightarrow> 'n json list" where
  "candidates (JArr xs) = xs"
| "candidates (JStr v) = [JStr v]"
| "candidates (JNum n) = [JNum n]"
| "candidates (JObj es) =
     (if isArray (obj_get es ''ids'') then elements (obj_get es ''ids'')
      else if obj_get es ''id'' \<noteq> JUndefined then [obj_get es ''id'']
      else [])"
| "candidates v = []"

text \<open>
  \<^verbatim>\<open>collectIds\<close> followed by the test
  \<^verbatim>\<open>typeof normalized === "string" && normalized.length\<close> of the loop.
\<close>

definition collectIds :: "'n numops \<Rightarrow> 'n json \<Rightarrow> string list" where
  "collectIds ops candidate =
     (case extractSingleRelationId ops candidate of
        JStr normalized \<Rightarrow> if length normalized \<noteq> 0 then [normalized] else []
      | _ \<Rightarrow> [])"

text \<open>The result is an array of strings, or \<^verbatim>\<open>undefined\<close>.\<close>

definition extractMultipleRelationIds :: "'n numops \<Rightarrow> 'n json \<Rightarrow> 'n json" where
  "extractMultipleRelationIds ops v =
     (if v = JNull then JArr []
      else let ids = concat (map (collectIds ops) (candidates v))
           in if length ids = 0 then (if explicitClear v then JArr [] else JUndefined)
              else JArr (map JStr (uniqueInOrder [] ids)))"

definition normalizeRelationValue ::
  "'n numops \<Rightarrow> 'n json \<Rightarrow> relationMeta \<Rightarrow> (string \<times> 'n json) list" where
  "normalizeRelationValue ops v relation =
     (let alias = the (orElse (rm_alias relation) (Some (rm_name relation)))
      in if alias = [] then []
         else
           let cardinality = getRelationCardinality (rm_relationType relation)
           in if cardinality = Some ''single'' then
                (let i = extractSingleRelationId ops v
                 in if i = JUndefined then [] else [(alias, i)])
              else
                (let ids = extractMultipleRelationIds ops v
                 in if ids = JUndefined then [] else [(alias, ids)]))"

definition normalizeRelationAliasValue :: "'n numops \<Rightarrow> 'n json \<Rightarrow> relationMeta \<Rightarrow> 'n json" where
  "normalizeRelationAliasValue ops v relation =
     (let cardinality = getRelationCardinality (rm_relationType relation)
      in if cardinality = Some ''single'' then extractSingleRelationId ops v
         else extractMultipleRelationIds ops v)"

text \<open>\<^verbatim>\<open>Object.entries\<close> of an object or an array (indices as decimal keys).\<close>

fun entries :: "'n json \<Rightarrow> (string \<times> 'n json) list" where
  "entries (JObj es) = es"
| "entries (JArr xs) = zip (map decimal [0 ..< length xs]) xs"
| "entries v = []"

text \<open>One round of the loop of \<^verbatim>\<open>sanitizePayload\<close>.\<close>

definition sanitizeEntry ::
  "'n numops \<Rightarrow> 'n schema \<Rightarrow> string \<times> 'n json \<Rightarrow> (string \<times> 'n json) list
     \<Rightarrow> (string \<times> 'n json) list" where
  "sanitizeEntry ops schema entry sanitized =
     (case entry of (key, v) \<Rightarrow>
        case getRelationInfo schema of (byName, byAlias) \<Rightarrow>
          if v = JUndefined then sanitized
          else (case byName key of
                  Some relation \<Rightarrow> obj_assign sanitized (normalizeRelationValue ops v relation)
                | None \<Rightarrow>
                    (case byAlias key of
                       Some relation \<Rightarrow>
                         (let normalized = normalizeRelationAliasValue ops v relation
                          in if normalized \<noteq> JUndefined then obj_set sanitized key normalized
                             else sanitized)
                     | None \<Rightarrow>
                         if key \<in> set (getLinksFieldNames schema)
                         then obj_set sanitized key (normalizeLinksValue v)
                         else obj_set sanitized key v)))"

definition sanitizePayload ::
  "'n numops \<Rightarrow> 'n json \<Rightarrow> 'n schema \<Rightarrow> (string \<times> 'n json) list" where
  "sanitizePayload ops payload schema =
     (if \<not> truthy ops payload \<or> \<not> typeofObject payload then []
      else let sanitized = fold (sanitizeEntry ops schema) (entries payload) []
           in if ''id'' \<in> set (keys sanitized) then obj_delete sanitized ''id'' else sanitized)"

subsection \<open>List results\<close>











subsection \<open>Operation descriptors\<close>

text \<open>
  The spread \<^verbatim>\<open>{ ...definition }\<close>: a copy of an object's own properties; the indexed
  elements of an array or the characters of a string; nothing for any other value.
\<close>

fun spread :: "'n json \<Rightarrow> (string \<times> 'n json) list" where
  "spread (JObj es) = es"
| "spread (JArr xs) = zip (map decimal [0 ..< length xs]) xs"
| "spread (JStr v) = zip (map decimal [0 ..< length v]) (map (\<lambda>c. JStr [c]) v)"
| "spread v = []"

definition readOnlyNames :: "string list" where
  "readOnlyNames =
     [''createdAt'', ''updatedAt'', ''deletedAt'', ''createdBy'', ''updatedBy'',
      ''searchVector'', ''position'']"

text \<open>\<^verbatim>\<open>new Map(fieldMetadata.map(field => [field.name, field]))\<close>: the last field of a name.\<close>

definition fieldMap :: "'n field list \<Rightarrow> string \<rightharpoonup> 'n field" where
  "fieldMap fieldMetadata = fold (\<lambda>fld m. m(f_name fld \<mapsto> fld)) fieldMetadata Map.empty"

definition isWritable :: "'n schema \<Rightarrow> string \<Rightarrow> bool" where
  "isWritable schema name =
     (if name \<in> set readOnlyNames then False
      else (case fieldMap (s_fieldMetadata schema) name of
              Some fld \<Rightarrow> f_type fld \<noteq> ''POSITION''
            | None \<Rightarrow> True))"

definition buildWritableProperties :: "'n schema \<Rightarrow> (string \<times> 'n json) list" where
  "buildWritableProperties schema =
     (let properties = s_properties schema;
          writable = fold (\<lambda>(name, definition) writable.
                             if isWritable schema name
                             then obj_set writable name (JObj (spread definition))
                             else writable) properties []
      in if length (keys writable) = 0
         then fold (\<lambda>(name, definition) fallback.
                      obj_set fallback name (JObj (spread definition))) properties []
         else writable)"

record 'n tool =
  tool_name :: string
  tool_description :: string
  tool_inputSchema :: "(string \<times> 'n json) list"

definition jsonStrings :: "string list \<Rightarrow> 'n json" where
  "jsonStrings xs = JArr (map JStr xs)"

text \<open>The five descriptors that \<^verbatim>\<open>generateToolsFromSchema\<close> pushes for one schema.\<close>

definition objectTools :: "'n numops \<Rightarrow> 'n schema \<Rightarrow> 'n tool list" where
  "objectTools ops schema =
     (let nameSingular = s_nameSingular schema;
          namePlural = s_namePlural schema;
          required = s_required schema;
          createProperties = buildWritableProperties schema;
          createRequired = filter (\<lambda>fieldName. fieldName \<in> set (keys createProperties)) required;
          idProperty =
            [(''id'', JObj [(''type'', JStr ''string''),
                            (''description'',
                               JStr (the (orElse (s_labelSingular schema) (Some nameSingular)) @ '' ID''))])];
          baseLabelSingular = toLowerCase (the (orElse (s_labelSingular schema) (Some nameSingular)));
          baseLabelPlural = toLowerCase (the (orElse (s_labelPlural schema) (Some namePlural)));
          createDescription =
            (if strTruthy (s_description schema)
             then ''Create a new '' @ baseLabelSingular @ '' ('' @ trim (the (s_description schema)) @ '')''
             else ''Create a new '' @ baseLabelSingular @ '' in Twenty CRM'');
          filterProperties = map (\<lambda>(fieldName, definition). (fieldName, JObj (spread definition)))
                               createProperties
      in [\<lparr> tool_name = ''create_'' @ nameSingular,
            tool_description = createDescription,
            tool_inputSchema =
              [(''type'', JStr ''object''), (''properties'', JObj createProperties),
               (''required'', jsonStrings createRequired), (''additionalProperties'', JBool True)] \<rparr>,
          \<lparr> tool_name = ''get_'' @ nameSingular,
            tool_description = ''Get a '' @ baseLabelSingular @ '' by ID'',
            tool_inputSchema =
              [(''type'', JStr ''object''), (''properties'', JObj idProperty),
               (''required'', jsonStrings [''id''])] \<rparr>,
          \<lparr> tool_name = ''update_'' @ nameSingular,
            tool_description = ''Update an existing '' @ baseLabelSingular,
            tool_inputSchema =
              [(''type'', JStr ''object''),
               (''properties'', JObj (obj_assign idProperty createProperties)),
               (''required'', jsonStrings [''id'']), (''additionalProperties'', JBool True)] \<rparr>,
          \<lparr> tool_name = ''list_'' @ namePlural,
            tool_description = ''List '' @ baseLabelPlural @ '' with optional filters'',
            tool_inputSchema =
              [(''type'', JStr ''object''),
               (''properties'', JObj
                  [(''limit'', JObj
                      [(''type'', JStr ''number''),
                       (''description'', JStr ''Number of results to return (default: 20)''),
                       (''default'', JNum (numOfNat ops 20))]),
                   (''offset'', JObj
                      [(''type'', JStr ''number''),
                       (''description'',
                          JStr ''Number of results to skip before starting the page (default: 0)''),
                       (''default'', JNum (numOfNat ops 0))]),
                   (''search'', JObj
                      [(''type'', JStr ''string''),
                       (''description'', JStr (''Search term applied to '' @ baseLabelPlural))]),
                   (''filters'', JObj
                      [(''type'', JStr ''object''),
                       (''description'',
                          JStr (''Additional key/value filters supported by the '' @ namePlural
                                @ '' REST endpoint'')),
                       (''properties'', JObj filterProperties),
                       (''additionalProperties'', JBool True)])]),
               (''additionalProperties'', JBool True)] \<rparr>,
          \<lparr> tool_name = ''delete_'' @ nameSingular,
            tool_description = ''Delete a '' @ baseLabelSingular,
            tool_inputSchema =
              [(''type'', JStr ''object''), (''properties'', JObj idProperty),
               (''required'', jsonStrings [''id''])] \<rparr>])"

text \<open>The \<^verbatim>\<open>properties\<close> member of a descriptor's input schema.\<close>

definition toolProperties :: "'n tool \<Rightarrow> (string \<times> 'n json) list" where
  "toolProperties t = entries (obj_get (tool_inputSchema t) ''properties'')"

subsection \<open>Fallback definitions\<close>

definition getFallbackSingular :: "string \<Rightarrow> string" where
  "getFallbackSingular namePlural =
     (if namePlural = ''people'' then ''person''
      else if namePlural = ''companies'' then ''company''
      else if namePlural = ''opportunities'' then ''opportunity''
      else if endsWith namePlural ''s'' then butlast namePlural else namePlural)"

definition fallbackRelation :: "string \<Rightarrow> string \<Rightarrow> string \<Rightarrow> string \<Rightarrow> string \<Rightarrow> relationMeta" where
  "fallbackRelation name targetNamePlural labelSingular labelPlural alias =
     \<lparr> rm_name = name, rm_alias = Some alias, rm_relationType = Some ''MANY_TO_ONE'',
       rm_targetNameSingular = Some name, rm_targetNamePlural = Some targetNamePlural,
       rm_targetLabelSingular = Some labelSingular, rm_targetLabelPlural = Some labelPlural \<rparr>"

text \<open>
  \<^verbatim>\<open>getFallbackDefinition\<close> reads only its first argument; the result is the triple
  (properties, required, relationMetadata).
\<close>

definition getFallbackDefinition ::
  "string \<Rightarrow> (string \<times> 'n json) list \<times> string list \<times> relationMeta list" where
  "getFallbackDefinition namePlural =
     (if namePlural = ''noteTargets'' then
        ([(''noteId'', described ''string'' ''ID of the note to link''),
          (''personId'', described ''string'' ''Person ID to attach''),
          (''companyId'', described ''string'' ''Optional company ID'')],
         [],
         [fallbackRelation ''note'' ''notes'' ''Note'' ''Notes'' ''noteId'',
          fallbackRelation ''person'' ''people'' ''Person'' ''People'' ''personId'',
          fallbackRelation ''company'' ''companies'' ''Company'' ''Companies'' ''companyId''])
      else ([], [], []))"

text \<open>
  \<^verbatim>\<open>charAt(0).toUpperCase()\<close> on 8-bit characters whose capital is an 8-bit character.
\<close>

definition upperChar :: "char \<Rightarrow> char" where
  "upperChar c =
     (let n = (of_char c :: nat)
      in if (97 \<le> n \<and> n \<le> 122) \<or> (224 \<le> n \<and> n \<le> 254 \<and> n \<noteq> 247)
         then char_of (n - 32) else c)"

definition capitalize :: "string \<Rightarrow> string" where
  "capitalize s = (case s of [] \<Rightarrow> [] | c # r \<Rightarrow> upperChar c # r)"

text \<open>The schema that one round of \<^verbatim>\<open>buildFallbackRegistry\<close> registers.\<close>

definition fallbackSchema :: "string \<Rightarrow> 'n schema" where
  "fallbackSchema namePlural =
     (let nameSingular = getFallbackSingular namePlural;
          labelSingular = capitalize nameSingular;
          labelPlural = capitalize namePlural
      in case getFallbackDefinition namePlural of
           (properties, required, relationMetadata) \<Rightarrow>
             \<lparr> s_nameSingular = nameSingular, s_namePlural = namePlural,
               s_labelSingular = Some labelSingular, s_labelPlural = Some labelPlural,
               s_description = Some (''Generic '' @ toLowerCase labelPlural @ '' operations''),
               s_properties = properties, s_required = required,
               s_fieldMetadata = [], s_relationMetadata = relationMetadata \<rparr>)"

subsection \<open>Creating a note and its links\<close>

text \<open>\<^verbatim>\<open>Array.prototype.join\<close> on strings.\<close>

fun join :: "string \<Rightarrow> string list \<Rightarrow> string" where
  "join sep [] = []"
| "join sep [x] = x"
| "join sep (x # y # zs) = x @ sep @ join sep (y # zs)"

text \<open>\<^verbatim>\<open>String(v)\<close>, which is also what a template literal applies to \<open>v\<close>.\<close>

fun toStringJS :: "'n numops \<Rightarrow> 'n json \<Rightarrow> string" where
  "toStringJS ops JUndefined = ''undefined''"
| "toStringJS ops JNull = ''null''"
| "toStringJS ops (JBool b) = (if b then ''true'' else ''false'')"
| "toStringJS ops (JNum n) = numToString ops n"
| "toStringJS ops (JStr s) = s"
| "toStringJS ops (JArr xs) =
     join '','' (map (\<lambda>x. if x = JNull \<or> x = JUndefined then [] else toStringJS ops x) xs)"
| "toStringJS ops (JObj es) = ''[object Object]''"

lemma size_obj_get: "obj_get es k \<noteq> JUndefined \<Longrightarrow> size (obj_get es k) < size (JObj es)"
  by (induction es) (auto simp: obj_get_def split: if_splits)

text \<open>The result is a string, or \<^verbatim>\<open>null\<close> (\<open>None\<close>).\<close>

function extractResourceId :: "'n numops \<Rightarrow> 'n json \<Rightarrow> string option"
  and firstResourceId :: "'n numops \<Rightarrow> 'n json list \<Rightarrow> string option" where
  "extractResourceId ops JNull = None"
| "extractResourceId ops JUndefined = None"
| "extractResourceId ops (JStr s) = Some s"
| "extractResourceId ops (JNum n) = Some (numToString ops n)"
| "extractResourceId ops (JArr xs) = firstResourceId ops xs"
| "extractResourceId ops (JObj es) =
     (if truthy ops (obj_get es ''id'') then Some (toStringJS ops (obj_get es ''id''))
      else
        let nested = (if obj_get es ''data'' \<noteq> JUndefined
                      then extractResourceId ops (obj_get es ''data'') else None)
        in if strTruthy nested then nested
           else
             let nested = (if obj_get es ''record'' \<noteq> JUndefined
                           then extractResourceId ops (obj_get es ''record'') else None)
             in if strTruthy nested then nested else None)"
| "extractResourceId ops (JBool b) = None"
| "firstResourceId ops [] = None"
| "firstResourceId ops (item # rest) =
     (let i = extractResourceId ops item in if strTruthy i then i else firstResourceId ops rest)"
  by pat_completeness auto
termination
  by (relation "measure (\<lambda>x. case x of Inl (ops, v) \<Rightarrow> 2 * size v
                                     | Inr (ops, xs) \<Rightarrow> 2 * size_list size xs + 1)")
     (auto dest: size_obj_get)










section \<open>Sample metadata\<close>

text \<open>
  A person object as the metadata export describes it, cut down to three fields: the
  MANY_TO_ONE relation to a company, the ONE_TO_MANY relation to note targets, and a
  LINKS field.
\<close>

definition plainField :: "string \<Rightarrow> string \<Rightarrow> int field" where
  "plainField name ty =
     \<lparr> f_name = name, f_type = ty, f_isActive = True, f_isSystem = False,
       f_isNullable = Some True, f_label = None, f_description = None, f_options = None,
       f_defaultValue = JNull, f_relation = None \<rparr>"

definition relationField :: "string \<Rightarrow> string \<Rightarrow> int field" where
  "relationField name ty =
     (plainField name ''RELATION'')
       \<lparr> f_relation := Some \<lparr> r_type = Some ty, r_targetObjectMetadata = None \<rparr> \<rparr>"

definition personObject :: "int objectMetadata" where
  "personObject =
     \<lparr> o_nameSingular = ''person'', o_namePlural = ''people'',
       o_labelSingular = Some ''Person'', o_labelPlural = Some ''People'',
       o_description = None, o_isActive = True, o_isSystem = False,
       o_fields = [relationField ''company'' ''MANY_TO_ONE'',
                   relationField ''noteTargets'' ''ONE_TO_MANY'',
                   plainField ''linkedinLink'' ''LINKS''] \<rparr>"

text \<open>A task object whose relation field already carries a name that ends in Id.\<close>

definition taskObject :: "int objectMetadata" where
  "taskObject =
     \<lparr> o_nameSingular = ''task'', o_namePlural = ''tasks'',
       o_labelSingular = Some ''Task'', o_labelPlural = Some ''Tasks'',
       o_description = None, o_isActive = True, o_isSystem = False,
       o_fields = [relationField ''ownerId'' ''MANY_TO_ONE''] \<rparr>"


text \<open>A schema whose two properties are both managed by the system.\<close>

definition timelineSchema :: "int schema" where
  "timelineSchema =
     \<lparr> s_nameSingular = ''event'', s_namePlural = ''events'',
       s_labelSingular = None, s_labelPlural = None, s_description = None,
       s_properties = [(''createdAt'', JObj [(''type'', JStr ''string'')]),
                       (''rank'', JObj [(''type'', JStr ''number'')])],
       s_required = [],
       s_fieldMetadata = [plainField ''createdAt'' ''DATE_TIME'', plainField ''rank'' ''POSITION''],
       s_relationMetadata = [] \<rparr>"




section \<open>Properties of the schema loader\<close>

lemma endsWithId_append_Id: "endsWithId (s @ ''Id'')"
  by (simp add: endsWithId_def)

lemma endsWithIds_append_Ids: "endsWithIds (s @ ''Ids'')"
  by (simp add: endsWithIds_def)

text \<open>
  C7. Alias derivation is exact and idempotent. For a field whose relation type is
  MANY_TO_ONE or ONE_TO_ONE (cardinality SINGLE) the alias is the field name when the name
  ends in Id, ignoring case, and the name followed by Id otherwise. For ONE_TO_MANY and
  MANY_TO_MANY (cardinality MULTIPLE) the same holds with Ids. Deriving the alias of a field
  that carries an already derived alias as its name returns that alias unchanged.
\<close>

theorem getRelationAlias_exact_idempotent:
  assumes rel: "f_relation fld = Some rel" and ty: "r_type rel = Some ty"
  shows "(ty = ''MANY_TO_ONE'' \<or> ty = ''ONE_TO_ONE'' \<longrightarrow>
            getRelationAlias fld
              = Some (if endsWithId (f_name fld) then f_name fld else f_name fld @ ''Id''))
       \<and> (ty = ''ONE_TO_MANY'' \<or> ty = ''MANY_TO_MANY'' \<longrightarrow>
            getRelationAlias fld
              = Some (if endsWithIds (f_name fld) then f_name fld else f_name fld @ ''Ids''))
       \<and> (\<forall>a. getRelationAlias fld = Some a \<longrightarrow>
            getRelationAlias (fld\<lparr>f_name := a\<rparr>) = Some a)"
proof (intro conjI impI allI)
  assume "ty = ''MANY_TO_ONE'' \<or> ty = ''ONE_TO_ONE''"
  then show "getRelationAlias fld
      = Some (if endsWithId (f_name fld) then f_name fld else f_name fld @ ''Id'')"
    using rel ty by (auto simp: getRelationAlias_def strTruthy_def)
next
  assume "ty = ''ONE_TO_MANY'' \<or> ty = ''MANY_TO_MANY''"
  then show "getRelationAlias fld
      = Some (if endsWithIds (f_name fld) then f_name fld else f_name fld @ ''Ids'')"
    using rel ty by (auto simp: getRelationAlias_def strTruthy_def)
next
  fix a
  assume a: "getRelationAlias fld = Some a"
  show "getRelationAlias (fld\<lparr>f_name := a\<rparr>) = Some a"
    using a rel ty endsWithId_append_Id [of "f_name fld"] endsWithIds_append_Ids [of "f_name fld"]
    by (auto simp: getRelationAlias_def strTruthy_def Let_def split: if_splits)
qed

theorem getRelationAlias_exact_idempotent_witness:
  "getRelationAlias (relationField ''company'' ''MANY_TO_ONE'') = Some ''companyId''
   \<and> getRelationAlias ((relationField ''company'' ''MANY_TO_ONE'')\<lparr>f_name := ''companyId''\<rparr>)
       = Some ''companyId''"
  using getRelationAlias_exact_idempotent
          [of "relationField ''company'' ''MANY_TO_ONE''"
              "\<lparr> r_type = Some ''MANY_TO_ONE'', r_targetObjectMetadata = None \<rparr>" "''MANY_TO_ONE''"]
  by (simp add: relationField_def plainField_def endsWithId_def)

lemma obj_get_obj_set: "obj_get (obj_set es k v) k' = (if k' = k then v else obj_get es k')"
  by (induction es) (auto simp: obj_get_def)

lemma obj_get_Nil: "obj_get [] k' = JUndefined"
  by (simp add: obj_get_def)

lemma obj_get_Cons: "obj_get ((k, v) # es) k' = (if k' = k then v else obj_get es k')"
  by (simp add: obj_get_def)

lemma keys_obj_set:
  "keys (obj_set es k v) = (if k \<in> set (keys es) then keys es else keys es @ [k])"
  by (induction es) (force simp: keys_def)+

lemma fieldEnum_properties:
  "obj_get (fieldEnum fld property) ''properties'' = obj_get property ''properties''"
  by (auto simp: fieldEnum_def obj_get_obj_set Let_def split: option.splits json.splits)

text \<open>
  C1, on the code. A person object with an active, non-system ONE_TO_MANY relation
  \<open>noteTargets\<close> next to the MANY_TO_ONE relation \<open>company\<close> compiles to a schema that
  keeps \<open>company\<close> and its alias and has no trace of \<open>noteTargets\<close>: the field is missing
  from the emitted field list, from the properties and from the relation descriptors.
\<close>

theorem generateToolSchema_drops_one_to_many:
  "map_option (\<lambda>s. (map f_name (s_fieldMetadata s), keys (s_properties s),
                     map rm_name (s_relationMetadata s)))
     (generateToolSchema (Some [personObject]) ''people'')
   = Some ([''company'', ''linkedinLink''], [''company'', ''companyId'', ''linkedinLink''],
           [''company''])"
  by code_simp

text \<open>
  C2, on the code. Whatever else a field says, once its type is LINKS the compiled property
  declares the sub-properties \<open>primary\<close>, \<open>secondary\<close> and \<open>additional\<close>, and none of
  \<open>primaryLinkUrl\<close>, \<open>primaryLinkLabel\<close>, \<open>secondaryLinks\<close>.
\<close>

theorem buildFieldProperty_links_shape:
  "subPropertyNames (buildFieldProperty (fld\<lparr>f_type := ''LINKS''\<rparr>))
     = [''primary'', ''secondary'', ''additional'']"
  by (simp add: subPropertyNames_def buildFieldProperty_def Let_def obj_get_obj_set
      fieldEnum_properties fieldTypeShape_def keys_def obj_get_Cons obj_get_Nil)

section \<open>Properties of the server\<close>

lemma set_keys_obj_set: "set (keys (obj_set es k v)) = insert k (set (keys es))"
  by (auto simp: keys_obj_set)

text \<open>
  C6. Whatever the payload and the object schema, the object that \<open>sanitizePayload\<close>
  returns has no \<open>id\<close> key.
\<close>

theorem sanitizePayload_no_id: "''id'' \<notin> set (keys (sanitizePayload ops payload schema))"
  by (auto simp: sanitizePayload_def Let_def obj_delete_def keys_def)

theorem sanitizePayload_no_id_witness:
  "truthy intOps (JObj [(''id'', JStr ''7''), (''title'', JStr ''T'')])
   \<and> typeofObject (JObj [(''id'', JStr ''7''), (''title'', JStr ''T'') :: string \<times> int json])
   \<and> ''id'' \<notin> set (keys (sanitizePayload intOps
         (JObj [(''id'', JStr ''7''), (''title'', JStr ''T'')]) (fallbackSchema ''notes'')))"
proof -
  have "''id'' \<notin> set (keys (sanitizePayload intOps
         (JObj [(''id'', JStr ''7''), (''title'', JStr ''T'')]) (fallbackSchema ''notes'')))"
    by (rule sanitizePayload_no_id)
  then show ?thesis by simp
qed

text \<open>
  C8. Link normalization fixes the shape and is idempotent. An object that already has one
  of the keys \<open>primaryLinkUrl\<close>, \<open>primaryLinkLabel\<close>, \<open>secondaryLinks\<close> is returned
  unchanged. A string, the empty one included, becomes the object with \<open>primaryLinkUrl\<close>
  the trimmed string, \<open>primaryLinkLabel\<close> the empty string and \<open>secondaryLinks\<close> null.
  Every value that is not a string, null and undefined among them, is returned unchanged.
  Normalizing a normalized value changes nothing.
\<close>

theorem normalizeLinksValue_idempotent_shape:
  "((''primaryLinkUrl'' \<in> set (keys es) \<or> ''primaryLinkLabel'' \<in> set (keys es)
       \<or> ''secondaryLinks'' \<in> set (keys es)) \<longrightarrow> normalizeLinksValue (JObj es) = JObj es)
   \<and> normalizeLinksValue (JStr s :: 'n json)
       = JObj [(''primaryLinkUrl'', JStr (trim s)), (''primaryLinkLabel'', JStr []),
               (''secondaryLinks'', JNull)]
   \<and> ((\<forall>t. v \<noteq> JStr t) \<longrightarrow> normalizeLinksValue v = v)
   \<and> normalizeLinksValue (normalizeLinksValue v) = normalizeLinksValue v"
  by (cases v) (auto simp: Let_def keys_def)

theorem normalizeLinksValue_idempotent_shape_witness:
  "''primaryLinkUrl'' \<in> set (keys [(''primaryLinkUrl'', JStr ''https://x.com'' :: int json)])
   \<and> normalizeLinksValue (JObj [(''primaryLinkUrl'', JStr ''https://x.com'' :: int json)])
       = JObj [(''primaryLinkUrl'', JStr ''https://x.com'')]
   \<and> normalizeLinksValue (JStr '' https://x.com '' :: int json)
       = JObj [(''primaryLinkUrl'', JStr ''https://x.com''), (''primaryLinkLabel'', JStr []),
               (''secondaryLinks'', JNull)]
   \<and> normalizeLinksValue (JBool True :: int json) = JBool True"
  using normalizeLinksValue_idempotent_shape
          [of "[(''primaryLinkUrl'', JStr ''https://x.com'' :: int json)]" "'' https://x.com ''"
              "JBool True"]
  by (simp add: trim_def isWhiteSpace_def keys_def)





subsection \<open>Writable properties\<close>

lemma obj_set_nonempty: "obj_set es k v \<noteq> []"
  by (cases es) (auto split: if_splits)

lemma fold_obj_set_nonempty:
  "acc \<noteq> [] \<Longrightarrow>
   fold (\<lambda>(name, d) acc. if P name then obj_set acc name (g d) else acc) ps acc \<noteq> []"
proof (induction ps arbitrary: acc)
  case Nil
  then show ?case by simp
next
  case (Cons p ps)
  obtain name d where p: "p = (name, d)" by (cases p)
  from Cons show ?case by (simp add: p obj_set_nonempty)
qed

lemma fold_copy_nonempty:
  assumes "ps \<noteq> []"
  shows "fold (\<lambda>(name, d) acc. obj_set acc name (g d)) ps [] \<noteq> []"
proof -
  from assms obtain name d ps' where ps: "ps = (name, d) # ps'" by (cases ps) auto
  have "fold (\<lambda>(name, d) acc. if True then obj_set acc name (g d) else acc) ps'
          (obj_set [] name (g d)) \<noteq> []"
    by (rule fold_obj_set_nonempty) simp
  then show ?thesis by (simp add: ps)
qed

lemma obj_set_append_new: "k \<notin> set (keys es) \<Longrightarrow> obj_set es k v = es @ [(k, v)]"
  by (induction es) (auto simp: keys_def)

lemma fold_copy_distinct:
  "distinct (keys ps) \<Longrightarrow> set (keys acc) \<inter> set (keys ps) = {} \<Longrightarrow>
   fold (\<lambda>(name, d) acc. obj_set acc name (g d)) ps acc = acc @ map (\<lambda>(name, d). (name, g d)) ps"
proof (induction ps arbitrary: acc)
  case Nil
  then show ?case by simp
next
  case (Cons p ps)
  obtain name d where p: "p = (name, d)" by (cases p)
  have new: "name \<notin> set (keys acc)" using Cons.prems(2) by (auto simp: p keys_def)
  have step: "obj_set acc name (g d) = acc @ [(name, g d)]" using new by (rule obj_set_append_new)
  have "set (keys (acc @ [(name, g d)])) \<inter> set (keys ps) = {}"
    using Cons.prems by (auto simp: p keys_def)
  moreover have "distinct (keys ps)" using Cons.prems(1) by (simp add: keys_def)
  ultimately have "fold (\<lambda>(name, d) acc. obj_set acc name (g d)) ps (acc @ [(name, g d)])
      = (acc @ [(name, g d)]) @ map (\<lambda>(name, d). (name, g d)) ps"
    by (rule Cons.IH[rotated])
  then show ?case by (simp add: p step)
qed

lemma fold_skip:
  "\<forall>name \<in> set (keys ps). \<not> P name \<Longrightarrow>
   fold (\<lambda>(name, d) acc. if P name then obj_set acc name (g d) else acc) ps acc = acc"
  by (induction ps arbitrary: acc) (auto simp: keys_def)

lemma keys_Nil: "keys [] = []"
  by (simp add: keys_def)

lemma keys_Cons: "keys ((k, v) # es) = k # keys es"
  by (simp add: keys_def)

lemma obj_assign_Nil: "obj_assign acc [] = acc"
  by (simp add: obj_assign_def)

lemma obj_assign_Cons: "obj_assign acc ((k, v) # src) = obj_assign (obj_set acc k v) src"
  by (simp add: obj_assign_def)

lemma obj_assign_single: "obj_assign acc [(k, v)] = obj_set acc k v"
  by (simp add: obj_assign_def)

lemma set_keys_obj_assign: "set (keys (obj_assign acc src)) = set (keys acc) \<union> set (keys src)"
proof (induction src arbitrary: acc)
  case Nil
  show ?case by (simp add: obj_assign_Nil keys_Nil)
next
  case (Cons e src)
  obtain k v where e: "e = (k, v)" by (cases e)
  show ?case by (simp add: e obj_assign_Cons Cons.IH set_keys_obj_set keys_Cons)
qed

lemma writable_all_read_only:
  assumes "distinct (keys (s_properties schema))"
      and "\<forall>name \<in> set (keys (s_properties schema)). \<not> isWritable schema name"
  shows "buildWritableProperties schema
           = map (\<lambda>(name, d). (name, JObj (spread d))) (s_properties schema)"
proof -
  have w: "fold (\<lambda>(name, d) acc.
                   if isWritable schema name then obj_set acc name (JObj (spread d)) else acc)
             (s_properties schema) [] = []"
    using assms(2) by (intro fold_skip) simp
  have c: "fold (\<lambda>(name, d) acc. obj_set acc name (JObj (spread d))) (s_properties schema) []
      = [] @ map (\<lambda>(name, d). (name, JObj (spread d))) (s_properties schema)"
    using assms(1) by (intro fold_copy_distinct) (auto simp: keys_def)
  show ?thesis
    using w c by (simp add: buildWritableProperties_def Let_def keys_def)
qed

lemma writable_nonempty:
  assumes "s_properties schema \<noteq> []"
  shows "buildWritableProperties schema \<noteq> []"
  using fold_copy_nonempty[OF assms, of "\<lambda>d. JObj (spread d)"]
  by (auto simp: buildWritableProperties_def Let_def keys_def)

lemma create_tool:
  "tool_name (objectTools ops schema ! 0) = ''create_'' @ s_nameSingular schema
   \<and> toolProperties (objectTools ops schema ! 0) = buildWritableProperties schema"
  by (simp add: objectTools_def Let_def toolProperties_def obj_get_Cons)

lemma update_tool:
  "tool_name (objectTools ops schema ! 2) = ''update_'' @ s_nameSingular schema
   \<and> set (keys (toolProperties (objectTools ops schema ! 2)))
       = insert ''id'' (set (keys (buildWritableProperties schema)))"
  by (simp add: objectTools_def Let_def toolProperties_def obj_get_Cons set_keys_obj_assign)
     (simp add: keys_def)

text \<open>
  C10. The writable projection of a schema with at least one property is never empty. When
  the properties have distinct names and none of them is writable (each is one of the
  read-only names or belongs to a POSITION field), the projection is the whole property map,
  every definition copied; the create descriptor then offers exactly these properties and
  the update descriptor offers them next to \<open>id\<close>.
\<close>

theorem buildWritableProperties_never_empty:
  "(s_properties schema \<noteq> [] \<longrightarrow> buildWritableProperties schema \<noteq> [])
   \<and> (distinct (keys (s_properties schema))
        \<and> (\<forall>name \<in> set (keys (s_properties schema)). \<not> isWritable schema name) \<longrightarrow>
       buildWritableProperties schema
         = map (\<lambda>(name, d). (name, JObj (spread d))) (s_properties schema)
       \<and> tool_name (objectTools ops schema ! 0) = ''create_'' @ s_nameSingular schema
       \<and> keys (toolProperties (objectTools ops schema ! 0)) = keys (s_properties schema)
       \<and> tool_name (objectTools ops schema ! 2) = ''update_'' @ s_nameSingular schema
       \<and> set (keys (toolProperties (objectTools ops schema ! 2)))
           = insert ''id'' (set (keys (s_properties schema))))"
proof (intro conjI impI)
  assume "s_properties schema \<noteq> []"
  then show "buildWritableProperties schema \<noteq> []" by (rule writable_nonempty)
next
  assume a: "distinct (keys (s_properties schema))
        \<and> (\<forall>name \<in> set (keys (s_properties schema)). \<not> isWritable schema name)"
  then have all: "buildWritableProperties schema
         = map (\<lambda>(name, d). (name, JObj (spread d))) (s_properties schema)"
    by (intro writable_all_read_only) simp_all
  then have k: "keys (buildWritableProperties schema) = keys (s_properties schema)"
    by (simp add: keys_def case_prod_unfold comp_def)
  show "buildWritableProperties schema
         = map (\<lambda>(name, d). (name, JObj (spread d))) (s_properties schema)"
    by (rule all)
  show "tool_name (objectTools ops schema ! 0) = ''create_'' @ s_nameSingular schema"
    using create_tool by blast
  show "keys (toolProperties (objectTools ops schema ! 0)) = keys (s_properties schema)"
    using create_tool[of ops schema] k by simp
  show "tool_name (objectTools ops schema ! 2) = ''update_'' @ s_nameSingular schema"
    using update_tool by blast
  show "set (keys (toolProperties (objectTools ops schema ! 2)))
           = insert ''id'' (set (keys (s_properties schema)))"
    using update_tool[of ops schema] k by simp
qed

theorem buildWritableProperties_never_empty_witness:
  "s_properties timelineSchema \<noteq> []
   \<and> distinct (keys (s_properties timelineSchema))
   \<and> \<not> isWritable timelineSchema ''createdAt'' \<and> \<not> isWritable timelineSchema ''rank''
   \<and> buildWritableProperties timelineSchema
       = [(''createdAt'', JObj [(''type'', JStr ''string'')]),
          (''rank'', JObj [(''type'', JStr ''number'')])]
   \<and> keys (toolProperties (objectTools intOps timelineSchema ! 0)) = [''createdAt'', ''rank'']"
proof -
  have d: "distinct (keys (s_properties timelineSchema))"
    by (simp add: timelineSchema_def keys_def)
  have r: "\<not> isWritable timelineSchema ''createdAt'' \<and> \<not> isWritable timelineSchema ''rank''"
    by (simp add: isWritable_def timelineSchema_def readOnlyNames_def fieldMap_def plainField_def)
  then have ro: "\<forall>name \<in> set (keys (s_properties timelineSchema)). \<not> isWritable timelineSchema name"
    by (simp add: timelineSchema_def keys_def)
  from buildWritableProperties_never_empty [of timelineSchema intOps] d ro
  have "buildWritableProperties timelineSchema
          = map (\<lambda>(name, d). (name, JObj (spread d))) (s_properties timelineSchema)
        \<and> keys (toolProperties (objectTools intOps timelineSchema ! 0))
          = keys (s_properties timelineSchema)"
    by blast
  then show ?thesis
    using d r by (simp add: timelineSchema_def keys_def)
qed

subsection \<open>Relation values in the sanitizer\<close>

lemma map_of_obj_set: "map_of (obj_set es k v) = (map_of es)(k \<mapsto> v)"
  by (induction es) auto

lemma map_of_obj_delete: "map_of (obj_delete es k) x = (if x = k then None else map_of es x)"
  by (induction es) (auto simp: obj_delete_def)

lemma normalizeRelationValue_shape:
  "normalizeRelationValue ops v r = []
   \<or> (\<exists>w. normalizeRelationValue ops v r = [(the (orElse (rm_alias r) (Some (rm_name r))), w)])"
  by (auto simp: normalizeRelationValue_def Let_def)

lemma sanitizeEntry_shape:
  "sanitizeEntry ops schema e [] = [] \<or> (\<exists>k w. sanitizeEntry ops schema e [] = [(k, w)])"
proof -
  obtain key v where e: "e = (key, v)" by (cases e)
  obtain byName byAlias where info: "getRelationInfo schema = (byName, byAlias)"
    by (cases "getRelationInfo schema")
  show ?thesis
  proof (cases "byName key")
    case (Some r)
    from normalizeRelationValue_shape[of ops v r]
    show ?thesis
      by (auto simp: sanitizeEntry_def e info Some obj_assign_Nil obj_assign_single)
  next
    case None
    then show ?thesis
      by (auto simp: sanitizeEntry_def e info Let_def split: option.splits)
  qed
qed

text \<open>A round of the loop merges what the entry yields on its own into the object so far.\<close>

lemma sanitizeEntry_assign:
  "sanitizeEntry ops schema e acc = obj_assign acc (sanitizeEntry ops schema e [])"
proof -
  obtain key v where e: "e = (key, v)" by (cases e)
  obtain byName byAlias where info: "getRelationInfo schema = (byName, byAlias)"
    by (cases "getRelationInfo schema")
  show ?thesis
  proof (cases "byName key")
    case (Some r)
    from normalizeRelationValue_shape[of ops v r]
    show ?thesis
      by (auto simp: sanitizeEntry_def e info Some obj_assign_Nil obj_assign_single)
  next
    case None
    then show ?thesis
      by (auto simp: sanitizeEntry_def e info Let_def obj_assign_Nil obj_assign_single
          split: option.splits)
  qed
qed

lemma map_of_assign_other:
  assumes "x \<notin> set (keys (sanitizeEntry ops schema e []))"
  shows "map_of (sanitizeEntry ops schema e acc) x = map_of acc x"
proof -
  from sanitizeEntry_shape[of ops schema e] show ?thesis
  proof
    assume n: "sanitizeEntry ops schema e [] = []"
    show ?thesis by (subst sanitizeEntry_assign) (simp add: n obj_assign_Nil)
  next
    assume "\<exists>k w. sanitizeEntry ops schema e [] = [(k, w)]"
    then obtain k w where kw: "sanitizeEntry ops schema e [] = [(k, w)]" by blast
    with assms have "x \<noteq> k" by (auto simp: keys_def)
    then show ?thesis
      by (subst sanitizeEntry_assign) (simp add: kw obj_assign_single map_of_obj_set)
  qed
qed

lemma fold_sanitize_other:
  "\<forall>e \<in> set es. x \<notin> set (keys (sanitizeEntry ops schema e [])) \<Longrightarrow>
   map_of (fold (sanitizeEntry ops schema) es acc) x = map_of acc x"
  by (induction es arbitrary: acc) (simp_all add: map_of_assign_other)

lemma single_forms:
  assumes "(\<exists>es t. v = JObj es \<and> obj_get es ''id'' = JStr t \<and> trim t \<noteq> [] \<and> s = trim t)
         \<or> (\<exists>es t. v = JObj es \<and> (\<forall>i. obj_get es ''id'' = JStr i \<longrightarrow> trim i = [])
                \<and> obj_get es ''value'' = JStr t \<and> trim t \<noteq> [] \<and> s = trim t)
         \<or> (\<exists>t. v = JStr t \<and> trim t \<noteq> [] \<and> s = trim t)
         \<or> (\<exists>n. v = JNum n \<and> numIsFinite ops n \<and> s = numToString ops n)"
  shows "extractSingleRelationId ops v = JStr s"
  using assms by (auto simp: Let_def split: json.splits)

lemma sanitizeEntry_relation:
  assumes rel: "fst (getRelationInfo schema) k = Some rel"
      and card: "getRelationCardinality (rm_relationType rel) = Some ''single''"
      and al: "rm_alias rel = Some a" "a \<noteq> []"
      and x: "extractSingleRelationId ops v = JStr s"
  shows "sanitizeEntry ops schema (k, v) [] = [(a, JStr s)]"
proof -
  obtain byName byAlias where info: "getRelationInfo schema = (byName, byAlias)"
    by (cases "getRelationInfo schema")
  with rel have bn: "byName k = Some rel" by simp
  have v: "v \<noteq> JUndefined" using x by auto
  have "normalizeRelationValue ops v rel = [(a, JStr s)]"
    using card al x by (simp add: normalizeRelationValue_def orElse_def strTruthy_def Let_def)
  then show ?thesis
    using v by (simp add: sanitizeEntry_def info bn obj_assign_single)
qed

lemma keys_single_payload:
  "x \<noteq> ''id'' \<Longrightarrow>
   x \<in> set (keys (sanitizePayload ops (JObj [e]) schema))
     \<longleftrightarrow> x \<in> set (keys (sanitizeEntry ops schema e []))"
  by (auto simp: sanitizePayload_def Let_def obj_delete_def keys_def)

lemma map_of_sanitizePayload:
  "x \<noteq> ''id'' \<Longrightarrow>
   map_of (sanitizePayload ops (JObj es) schema) x
     = map_of (fold (sanitizeEntry ops schema) es []) x"
  by (simp add: sanitizePayload_def Let_def map_of_obj_delete)

text \<open>
  C4, as the claim states it, fails when the relation's alias is its own name: the relation
  field \<open>ownerId\<close> of type MANY_TO_ONE compiles to the alias \<open>ownerId\<close>, and sanitizing
  \<^verbatim>\<open>{ ownerId: { id: "X" } }\<close> yields \<^verbatim>\<open>{ ownerId: "X" }\<close>, where the original key is
  in the output.
\<close>

theorem sanitizePayload_alias_is_name_counterexample:
  "map_option
     (\<lambda>schema.
        (map (\<lambda>r. (rm_name r, rm_alias r, getRelationCardinality (rm_relationType r)))
           (s_relationMetadata schema),
         sanitizePayload intOps (JObj [(''ownerId'', JObj [(''id'', JStr ''X'')])]) schema))
     (generateToolSchema (Some [taskObject]) ''tasks'')
   = Some ([(''ownerId'', Some ''ownerId'', Some ''single'')], [(''ownerId'', JStr ''X'')])"
  by code_simp

text \<open>
  C4, amended. Let the schema's relation of name \<open>k\<close> have SINGLE cardinality and a
  non-empty alias \<open>a\<close> other than \<open>id\<close>, and let the payload map \<open>k\<close> to an object whose
  \<open>id\<close> (or else whose \<open>value\<close>) is a string that is non-empty once trimmed, to a string
  that is non-empty once trimmed, or to a finite number; \<open>s\<close> is the trimmed string, or the
  number as a string. Then sanitizing the payload \<^verbatim>\<open>{ k: v }\<close> yields exactly
  \<^verbatim>\<open>{ a: s }\<close>. In any payload with the entry \<open>k\<close>, the output has \<open>s\<close> under \<open>a\<close> when
  no other entry is by itself written under \<open>a\<close>, and the output has no key \<open>k\<close> when
  \<open>k\<close> differs from \<open>a\<close> and no other entry is by itself written under \<open>k\<close>.
\<close>

theorem sanitizePayload_single_relation:
  assumes rel: "fst (getRelationInfo schema) k = Some rel"
      and card: "getRelationCardinality (rm_relationType rel) = Some ''single''"
      and al: "rm_alias rel = Some a" "a \<noteq> []" "a \<noteq> ''id''"
      and form:
        "(\<exists>es t. v = JObj es \<and> obj_get es ''id'' = JStr t \<and> trim t \<noteq> [] \<and> s = trim t)
         \<or> (\<exists>es t. v = JObj es \<and> (\<forall>i. obj_get es ''id'' = JStr i \<longrightarrow> trim i = [])
                \<and> obj_get es ''value'' = JStr t \<and> trim t \<noteq> [] \<and> s = trim t)
         \<or> (\<exists>t. v = JStr t \<and> trim t \<noteq> [] \<and> s = trim t)
         \<or> (\<exists>n. v = JNum n \<and> numIsFinite ops n \<and> s = numToString ops n)"
      and payload: "distinct (keys payload)" "(k, v) \<in> set payload"
  shows "sanitizePayload ops (JObj [(k, v)]) schema = [(a, JStr s)]
       \<and> ((\<forall>e \<in> set payload. fst e \<noteq> k \<longrightarrow>
               a \<notin> set (keys (sanitizePayload ops (JObj [e]) schema))) \<longrightarrow>
            map_of (sanitizePayload ops (JObj payload) schema) a = Some (JStr s))
       \<and> (k \<noteq> a \<and> (\<forall>e \<in> set payload. fst e \<noteq> k \<longrightarrow>
               k \<notin> set (keys (sanitizePayload ops (JObj [e]) schema))) \<longrightarrow>
            k \<notin> set (keys (sanitizePayload ops (JObj payload) schema)))"
proof (intro conjI impI)
  have x: "extractSingleRelationId ops v = JStr s" using form by (rule single_forms)
  have step: "sanitizeEntry ops schema (k, v) [] = [(a, JStr s)]"
    using rel card al(1,2) x by (rule sanitizeEntry_relation)
  show "sanitizePayload ops (JObj [(k, v)]) schema = [(a, JStr s)]"
    using al(3) by (simp add: sanitizePayload_def step keys_def)
  obtain pre post where split: "payload = pre @ (k, v) # post"
    using payload(2) by (auto dest: split_list)
  have others: "\<forall>e \<in> set pre \<union> set post. fst e \<noteq> k"
    using payload(1) by (auto simp: split keys_def)
  {
    assume h: "\<forall>e \<in> set payload. fst e \<noteq> k \<longrightarrow>
               a \<notin> set (keys (sanitizePayload ops (JObj [e]) schema))"
    have o: "\<forall>e \<in> set pre \<union> set post. a \<notin> set (keys (sanitizeEntry ops schema e []))"
      using h others al(3) by (auto simp: split keys_single_payload)
    have "map_of (fold (sanitizeEntry ops schema) payload []) a
        = map_of (sanitizeEntry ops schema (k, v) (fold (sanitizeEntry ops schema) pre [])) a"
      using o by (simp add: split fold_sanitize_other)
    also have "\<dots> = Some (JStr s)"
      by (subst sanitizeEntry_assign) (simp add: step obj_assign_single map_of_obj_set)
    finally show "map_of (sanitizePayload ops (JObj payload) schema) a = Some (JStr s)"
      using al(3) by (simp add: map_of_sanitizePayload)
  }
  {
    assume h: "k \<noteq> a \<and> (\<forall>e \<in> set payload. fst e \<noteq> k \<longrightarrow>
               k \<notin> set (keys (sanitizePayload ops (JObj [e]) schema)))"
    show "k \<notin> set (keys (sanitizePayload ops (JObj payload) schema))"
    proof (cases "k = ''id''")
      case True
      then show ?thesis
        by (auto simp: sanitizePayload_def Let_def obj_delete_def keys_def)
    next
      case False
      have "\<forall>e \<in> set payload. k \<notin> set (keys (sanitizeEntry ops schema e []))"
      proof
        fix e assume e: "e \<in> set payload"
        show "k \<notin> set (keys (sanitizeEntry ops schema e []))"
        proof (cases "fst e = k")
          case True
          with e payload have "e = (k, v)"
            by (metis eq_key_imp_eq_value keys_def prod.collapse)
          then show ?thesis using h by (simp add: step keys_def)
        next
          case False
          with h e \<open>k \<noteq> ''id''\<close> show ?thesis by (simp add: keys_single_payload)
        qed
      qed
      then have "map_of (fold (sanitizeEntry ops schema) payload []) k = None"
        by (simp add: fold_sanitize_other)
      then have "map_of (sanitizePayload ops (JObj payload) schema) k = None"
        using False by (simp add: map_of_sanitizePayload)
      then show ?thesis by (simp add: map_of_eq_None_iff keys_def)
    qed
  }
qed

lemma noteTargets_byName:
  "fst (getRelationInfo (fallbackSchema ''noteTargets'' :: int schema)) ''company''
     = Some (fallbackRelation ''company'' ''companies'' ''Company'' ''Companies'' ''companyId'')
   \<and> fst (getRelationInfo (fallbackSchema ''noteTargets'' :: int schema)) ''note''
     = Some (fallbackRelation ''note'' ''notes'' ''Note'' ''Notes'' ''noteId'')"
  by code_simp

theorem sanitizePayload_single_relation_witness:
  "sanitizePayload intOps (JObj [(''company'', JObj [(''id'', JStr ''X'')])])
      (fallbackSchema ''noteTargets'') = [(''companyId'', JStr ''X'')]
   \<and> map_of (sanitizePayload intOps
        (JObj [(''note'', JObj [(''id'', JStr ''note-1'')]), (''personId'', JStr ''person-1'')])
        (fallbackSchema ''noteTargets'')) ''noteId'' = Some (JStr ''note-1'')
   \<and> ''note'' \<notin> set (keys (sanitizePayload intOps
        (JObj [(''note'', JObj [(''id'', JStr ''note-1'')]), (''personId'', JStr ''person-1'')])
        (fallbackSchema ''noteTargets'')))"
proof -
  let ?schema = "fallbackSchema ''noteTargets'' :: int schema"
  let ?company = "fallbackRelation ''company'' ''companies'' ''Company'' ''Companies'' ''companyId''"
  let ?note = "fallbackRelation ''note'' ''notes'' ''Note'' ''Notes'' ''noteId''"
  let ?payload = "[(''note'', JObj [(''id'', JStr ''note-1'')]), (''personId'', JStr ''person-1'')]
                    :: (string \<times> int json) list"
  have single: "getRelationCardinality (rm_relationType ?company) = Some ''single''"
               "getRelationCardinality (rm_relationType ?note) = Some ''single''"
    by (simp_all add: fallbackRelation_def getRelationCardinality_def)
  have person: "sanitizePayload intOps (JObj [(''personId'', JStr ''person-1'')]) ?schema
                  = [(''personId'', JStr ''person-1'')]"
    by code_simp
  have one: "sanitizePayload intOps (JObj [(''company'', JObj [(''id'', JStr ''X'')])]) ?schema
               = [(''companyId'', JStr ''X'')]"
    using sanitizePayload_single_relation
            [of ?schema "''company''" ?company "''companyId''" "JObj [(''id'', JStr ''X'')]" "''X''"
                intOps "[(''company'', JObj [(''id'', JStr ''X'')])]"]
          noteTargets_byName single
    by (simp add: fallbackRelation_def obj_get_Cons trim_def isWhiteSpace_def keys_def)
  have two: "map_of (sanitizePayload intOps (JObj ?payload) ?schema) ''noteId'' = Some (JStr ''note-1'')
             \<and> ''note'' \<notin> set (keys (sanitizePayload intOps (JObj ?payload) ?schema))"
    using sanitizePayload_single_relation
            [of ?schema "''note''" ?note "''noteId''" "JObj [(''id'', JStr ''note-1'')]" "''note-1''"
                intOps ?payload]
          noteTargets_byName single person
    by (simp add: fallbackRelation_def obj_get_Cons trim_def isWhiteSpace_def keys_def)
  from one two show ?thesis by simp
qed











subsection \<open>Creating a note and its links\<close>








end
